theory Spec2Isabelle
  imports Main "HOL-Library.Word"
begin

section \<open>Data model of tools/preprocess_data.py\<close>

text \<open>
  A Python \<open>str\<close> is a sequence of Unicode code points and \<open>len\<close> counts code points,
  so a document is a list of code points, each a natural number. Dictionary keys given
  on the command line (\<open>--json-keys\<close>) are kept as HOL strings.
\<close>

type_synonym pystr = "nat list"
type_synonym token = nat
type_synonym byte = "8 word"

datatype error =
    IndexError
  | KeyError string
  | OSError
  | ValueError
  | ZeroDivisionError
  | BuilderError string

text \<open>The fields of \<open>args\<close> (\<open>get_args\<close>) that the program reads.\<close>

record args =
  ftfy :: bool
  json_keys :: "string list"
  append_eod :: bool
  output_prefix :: string
  dataset_impl :: string
  workers :: int
  log_interval :: int

text \<open>
  The tokenizer is an external collaborator (\<open>megatron.tokenizer\<close>): a function from
  text to token ids, an end-of-document id and a vocabulary size. It is a parameter of
  the model.
\<close>

record tokenizer =
  tokenize :: "pystr \<Rightarrow> token list"
  eod :: token
  vocab_size :: nat

section \<open>sanitize\<close>

definition SPACE_TOKEN :: nat where
  "SPACE_TOKEN = 9601"  \<comment> \<open>U+2581, the SPM symbol for a space\<close>

definition TAB_TOKEN :: nat where
  "TAB_TOKEN = 1"  \<comment> \<open>\<open>chr(1)\<close>\<close>

definition NEWLINE_TOKEN :: nat where
  "NEWLINE_TOKEN = 2"  \<comment> \<open>\<open>chr(2)\<close>\<close>

text \<open>
  \<open>text.replace(old, new)\<close> where \<open>old\<close> and \<open>new\<close> are one character each, which
  is how \<open>sanitize\<close> calls it: every occurrence of \<open>old\<close> becomes \<open>new\<close>.
\<close>

definition replace :: "pystr \<Rightarrow> nat \<Rightarrow> nat \<Rightarrow> pystr" where
  "replace text old new = map (\<lambda>c. if c = old then new else c) text"

definition sanitize :: "pystr \<Rightarrow> pystr" where
  "sanitize text0 =
     (let text1 = replace text0 10 NEWLINE_TOKEN;
          text2 = replace text1 9 TAB_TOKEN;
          text3 = replace text2 32 SPACE_TOKEN
      in text3)"

section \<open>Encoder.encode\<close>

text \<open>
  \<open>doc_ids[-1].append(t)\<close>: the last list of \<open>doc_ids\<close> grows by one element; on an
  empty \<open>doc_ids\<close> the index \<open>-1\<close> raises \<open>IndexError\<close>.
\<close>

definition append_to_last :: "'a list list \<Rightarrow> 'a \<Rightarrow> error + 'a list list" where
  "append_to_last doc_ids t =
     (if doc_ids = [] then Inl IndexError
      else Inr (butlast doc_ids @ [last doc_ids @ [t]]))"

text \<open>The body of the loop over \<open>json_keys\<close>, up to the assignment \<open>ids[key] = doc_ids\<close>.\<close>

definition encode_key :: "tokenizer \<Rightarrow> args \<Rightarrow> pystr \<Rightarrow> error + token list list" where
  "encode_key tk a text =
     (let text_ids = tokenize tk text;
          doc_ids = (if length text_ids > 0 then [text_ids] else [])
      in if append_eod a then append_to_last doc_ids (eod tk) else Inr doc_ids)"

text \<open>
  A Python dictionary keeps insertion order: an association list, where assigning to a
  key that is present replaces its value in place and a new key goes to the end.
  \<open>dict_set k v d\<close> is \<open>d[k] = v\<close>.
\<close>

fun dict_set :: "'k \<Rightarrow> 'v \<Rightarrow> ('k \<times> 'v) list \<Rightarrow> ('k \<times> 'v) list" where
  "dict_set k v [] = [(k, v)]"
| "dict_set k v (p # d) = (if fst p = k then (k, v) # d else p # dict_set k v d)"

fun encode_loop ::
  "tokenizer \<Rightarrow> args \<Rightarrow> pystr \<Rightarrow> string list \<Rightarrow> (string \<times> token list list) list
     \<Rightarrow> error + (string \<times> token list list) list" where
  "encode_loop tk a text [] ids = Inr ids"
| "encode_loop tk a text (key # keys) ids =
     (case encode_key tk a text of
        Inl e \<Rightarrow> Inl e
      | Inr doc_ids \<Rightarrow> encode_loop tk a text keys (dict_set key doc_ids ids))"

text \<open>\<open>ftfy.fix_text\<close> is an external library function, the parameter \<open>fx\<close>.\<close>

definition encode ::
  "(pystr \<Rightarrow> pystr) \<Rightarrow> tokenizer \<Rightarrow> args \<Rightarrow> pystr
     \<Rightarrow> error + ((string \<times> token list list) list \<times> nat)" where
  "encode fx tk a text0 =
     (let text = (if ftfy a then fx text0 else text0)
      in case encode_loop tk a text (json_keys a) [] of
           Inl e \<Rightarrow> Inl e
         | Inr ids \<Rightarrow> Inr (ids, length text))"

section \<open>External collaborators\<close>

text \<open>
  The dataset builder (\<open>megatron.data.indexed_dataset\<close>) is not part of this file. Its
  operations are parameters, over any builder state \<open>'b\<close>; each may raise.
  \<open>add_item\<close> stands for \<open>builder.add_item(torch.IntTensor(sentence))\<close>.
\<close>

record 'b indexed_dataset =
  make_builder :: "string \<Rightarrow> string \<Rightarrow> nat \<Rightarrow> error + 'b"
  add_item :: "'b \<Rightarrow> token list \<Rightarrow> error + 'b"
  end_document :: "'b \<Rightarrow> error + 'b"
  finalize :: "'b \<Rightarrow> string \<Rightarrow> error + 'b"

text \<open>
  Everything \<open>main\<close> takes from outside: \<open>ftfy.fix_text\<close>, the decoder that
  \<open>open(fname, encoding='utf-8', errors='ignore')\<close> applies to a file's bytes (total,
  since decoding errors are ignored), the tokenizer that \<open>build_tokenizer(args)\<close>
  returns, and the dataset builder.
\<close>

record 'b externals =
  fix_text :: "pystr \<Rightarrow> pystr"
  utf8_ignore :: "byte list \<Rightarrow> pystr"
  build_tokenizer :: tokenizer
  dataset :: "'b indexed_dataset"

section \<open>yield_from_files\<close>

text \<open>
  An entry that \<open>os.walk\<close> lists either opens and has bytes, or \<open>open\<close> raises
  \<open>OSError\<close> (no permission, a dangling link). The list of files given to the model is
  \<open>fnames\<close> after \<open>random.shuffle\<close>.
\<close>

datatype input_file = Unopenable | Content "byte list"

definition read :: "(byte list \<Rightarrow> pystr) \<Rightarrow> input_file \<Rightarrow> error + pystr" where
  "read dec fname =
     (case fname of
        Unopenable \<Rightarrow> Inl OSError
      | Content bs \<Rightarrow> Inr (sanitize (dec bs)))"

text \<open>
  \<open>yielder(fname, semaphore)\<close> run from its start to where it first stops: it ends
  without a document, raises, waits in \<open>semaphore.acquire()\<close> on a semaphore whose
  value is 0, or acquires a permit and yields the document (after which it ends).
\<close>

datatype yielded = Nothing | Raises error | Waits | Yields pystr

definition yielder :: "(byte list \<Rightarrow> pystr) \<Rightarrow> input_file \<Rightarrow> nat \<Rightarrow> yielded" where
  "yielder dec fname sem =
     (case read dec fname of
        Inl e \<Rightarrow> Raises e
      | Inr f \<Rightarrow> if f \<noteq> [] then (if sem = 0 then Waits else Yields f) else Nothing)"

text \<open>
  One \<open>next()\<close> on the generator \<open>yield_from_files\<close>, whose state is the list of files
  not visited yet: the outcome, with the files left and the semaphore's value after a
  yield.
\<close>

datatype gen_result =
    StopIteration
  | Raised error
  | Blocked
  | Yielded pystr "input_file list" nat

fun yield_from_files :: "(byte list \<Rightarrow> pystr) \<Rightarrow> input_file list \<Rightarrow> nat \<Rightarrow> gen_result" where
  "yield_from_files dec [] sem = StopIteration"
| "yield_from_files dec (fname # fnames) sem =
     (case yielder dec fname sem of
        Nothing \<Rightarrow> yield_from_files dec fnames sem
      | Raises e \<Rightarrow> Raised e
      | Waits \<Rightarrow> Blocked
      | Yields f \<Rightarrow> Yielded f fnames (sem - 1))"

section \<open>main\<close>

text \<open>
  The state that the loop of \<open>main\<close> changes: the semaphore's value, the dictionary
  \<open>builders\<close>, \<open>total_bytes_processed\<close> and the loop counter \<open>i\<close>.
\<close>

record 'b driver =
  semaphore :: nat
  builders :: "(string \<times> 'b) list"
  total_bytes_processed :: nat
  docs_seen :: nat

definition output_bin_file :: "args \<Rightarrow> string \<Rightarrow> string" where
  "output_bin_file a key = output_prefix a @ ''_'' @ key @ ''_document.bin''"

definition output_idx_file :: "args \<Rightarrow> string \<Rightarrow> string" where
  "output_idx_file a key = output_prefix a @ ''_'' @ key @ ''_document.idx''"

text \<open>
  \<open>Semaphore(10000 + args.workers)\<close> raises \<open>ValueError\<close> on a negative value. The
  builders are made by \<open>for key in ("text",)\<close>.
\<close>

fun make_builders ::
  "'b indexed_dataset \<Rightarrow> args \<Rightarrow> nat \<Rightarrow> string list \<Rightarrow> (string \<times> 'b) list
     \<Rightarrow> error + (string \<times> 'b) list" where
  "make_builders api a vocab [] bs = Inr bs"
| "make_builders api a vocab (key # keys) bs =
     (case make_builder api (output_bin_file a key) (dataset_impl a) vocab of
        Inl e \<Rightarrow> Inl e
      | Inr b \<Rightarrow> make_builders api a vocab keys (dict_set key b bs))"

definition main_init :: "'b externals \<Rightarrow> args \<Rightarrow> error + 'b driver" where
  "main_init ext a =
     (if 10000 + workers a < 0 then Inl ValueError
      else case make_builders (dataset ext) a (vocab_size (build_tokenizer ext)) [''text''] [] of
             Inl e \<Rightarrow> Inl e
           | Inr bs \<Rightarrow>
               Inr \<lparr>semaphore = nat (10000 + workers a), builders = bs,
                    total_bytes_processed = 0, docs_seen = 0\<rparr>)"

text \<open>
  \<open>for sentence in sentences: builders[key].add_item(...)\<close> on the builder of one key.
  A builder is changed in place, so what was added before a failure stays added.
\<close>

fun add_sentences :: "'b indexed_dataset \<Rightarrow> 'b \<Rightarrow> token list list \<Rightarrow> 'b \<times> error option" where
  "add_sentences api b [] = (b, None)"
| "add_sentences api b (sentence # sentences) =
     (case add_item api b sentence of
        Inl e \<Rightarrow> (b, Some e)
      | Inr b' \<Rightarrow> add_sentences api b' sentences)"

text \<open>
  \<open>for key, sentences in doc.items()\<close>: \<open>builders[key]\<close> raises \<open>KeyError\<close> for a key
  without a builder.
\<close>

fun add_doc ::
  "'b indexed_dataset \<Rightarrow> (string \<times> 'b) list \<Rightarrow> (string \<times> token list list) list
     \<Rightarrow> (string \<times> 'b) list \<times> error option" where
  "add_doc api bs [] = (bs, None)"
| "add_doc api bs ((key, sentences) # items) =
     (case map_of bs key of
        None \<Rightarrow> (bs, Some (KeyError key))
      | Some b \<Rightarrow>
          (case add_sentences api b sentences of
             (b', Some e) \<Rightarrow> (dict_set key b' bs, Some e)
           | (b', None) \<Rightarrow>
               (case end_document api b' of
                  Inl e \<Rightarrow> (dict_set key b' bs, Some e)
                | Inr b'' \<Rightarrow> add_doc api (dict_set key b'' bs) items)))"

text \<open>
  The body of \<open>for i, (doc, bytes_processed) in enumerate(encoded_docs, start=1)\<close>, for
  one encoded result. The progress bar and the clock are left out; of the logging only
  \<open>i % args.log_interval\<close> is kept, which raises \<open>ZeroDivisionError\<close> for an interval
  of 0.
\<close>

fun consume ::
  "'b indexed_dataset \<Rightarrow> args \<Rightarrow> 'b driver \<Rightarrow> (string \<times> token list list) list \<times> nat
     \<Rightarrow> 'b driver \<times> error option" where
  "consume api a st (doc, bytes_processed) =
     (let st1 = st\<lparr>docs_seen := docs_seen st + 1,
                   total_bytes_processed := total_bytes_processed st + bytes_processed\<rparr>;
          st2 = st1\<lparr>semaphore := semaphore st1 + 1\<rparr>
      in (case add_doc api (builders st2) doc of
            (bs, Some e) \<Rightarrow> (st2\<lparr>builders := bs\<rparr>, Some e)
          | (bs, None) \<Rightarrow>
              (if log_interval a = 0 then (st2\<lparr>builders := bs\<rparr>, Some ZeroDivisionError)
               else (st2\<lparr>builders := bs\<rparr>, None))))"

text \<open>\<open>for key in args.json_keys: builders[key].finalize(output_idx_files[key])\<close>.\<close>

fun finalize_all ::
  "'b indexed_dataset \<Rightarrow> args \<Rightarrow> string list \<Rightarrow> (string \<times> 'b) list
     \<Rightarrow> (string \<times> 'b) list \<times> error option" where
  "finalize_all api a [] bs = (bs, None)"
| "finalize_all api a (key # keys) bs =
     (case map_of bs key of
        None \<Rightarrow> (bs, Some (KeyError key))
      | Some b \<Rightarrow>
          (case finalize api b (output_idx_file a key) of
             Inl e \<Rightarrow> (bs, Some e)
           | Inr b' \<Rightarrow> finalize_all api a keys (dict_set key b' bs)))"

text \<open>How a run ends: normally, by an exception, or never (waiting for a permit).\<close>

datatype status = Completed | Failed error | Hangs

text \<open>
  The loop of \<open>main\<close> with \<open>workers \<le> 1\<close>, where
  \<open>encoded_docs = (encoder.encode(doc) for doc in fin)\<close>: each turn of the loop runs the
  generator to its next document, encodes it and runs the body. The recursion follows
  \<open>for fname in fnames: yield from yielder(fname, semaphore)\<close>. With no other thread to
  release a permit, a generator that waits in \<open>acquire\<close> waits for ever.
\<close>

fun drive :: "'b externals \<Rightarrow> args \<Rightarrow> input_file list \<Rightarrow> 'b driver \<Rightarrow> 'b driver \<times> status" where
  "drive ext a [] st = (st, Completed)"
| "drive ext a (fname # fnames) st =
     (case yielder (utf8_ignore ext) fname (semaphore st) of
        Nothing \<Rightarrow> drive ext a fnames st
      | Raises e \<Rightarrow> (st, Failed e)
      | Waits \<Rightarrow> (st, Hangs)
      | Yields f \<Rightarrow>
          (let st1 = st\<lparr>semaphore := semaphore st - 1\<rparr>
           in case encode (fix_text ext) (build_tokenizer ext) a f of
                Inl e \<Rightarrow> (st1, Failed e)
              | Inr r \<Rightarrow>
                  (case consume (dataset ext) a st1 r of
                     (st2, Some e) \<Rightarrow> (st2, Failed e)
                   | (st2, None) \<Rightarrow> drive ext a fnames st2)))"

text \<open>
  \<open>main\<close> for \<open>workers \<le> 1\<close>: \<open>Inl\<close> when the set-up raises, otherwise the driver's
  last state and how the run ended.
\<close>

definition main :: "'b externals \<Rightarrow> args \<Rightarrow> input_file list \<Rightarrow> error + ('b driver \<times> status)" where
  "main ext a files =
     (case main_init ext a of
        Inl e \<Rightarrow> Inl e
      | Inr st0 \<Rightarrow>
          (case drive ext a files st0 of
             (st, Completed) \<Rightarrow>
               (case finalize_all (dataset ext) a (json_keys a) (builders st) of
                  (bs, Some e) \<Rightarrow> Inr (st\<lparr>builders := bs\<rparr>, Failed e)
                | (bs, None) \<Rightarrow> Inr (st\<lparr>builders := bs\<rparr>, Completed))
           | (st, outcome) \<Rightarrow> Inr (st, outcome)))"

section \<open>The loop of main with a worker pool\<close>

text \<open>
  With \<open>workers > 1\<close>, \<open>pool.imap(encoder.encode, fin, chunksize=25)\<close> lets a thread
  of the pool take documents from the generator while the loop of \<open>main\<close> takes
  results, in the order of the documents. The state is the generator's files, an
  exception that the generator raised and that the loop has not met yet, the documents
  yielded whose results the loop has not taken, the driver's state, and the exception
  that ended the loop.
\<close>

record 'b pipeline =
  source :: "input_file list"
  source_raised :: "error option"
  in_flight :: "pystr list"
  driver_state :: "'b driver"
  terminated :: "error option"

text \<open>
  \<open>Feed\<close> is one \<open>next()\<close> on the generator, \<open>Drain\<close> one turn of the loop of
  \<open>main\<close>; \<open>None\<close> when the action cannot happen in that state. With \<open>workers \<le> 1\<close>
  the generator only runs when the loop asks for the next result, so \<open>Feed\<close> needs the
  earlier document to be taken and the loop to be running; with a pool its thread may
  still take documents while the exception that ended the loop unwinds. A document
  whose encoding raises keeps its permit: the loop ends before \<open>semaphore.release()\<close>.
\<close>

datatype action = Feed | Drain

fun step :: "'b externals \<Rightarrow> args \<Rightarrow> action \<Rightarrow> 'b pipeline \<Rightarrow> 'b pipeline option" where
  "step ext a Feed p =
     (if source_raised p \<noteq> None then None
      else if workers a \<le> 1 \<and> (in_flight p \<noteq> [] \<or> terminated p \<noteq> None) then None
      else (case yield_from_files (utf8_ignore ext) (source p) (semaphore (driver_state p)) of
              StopIteration \<Rightarrow> Some (p\<lparr>source := []\<rparr>)
            | Raised e \<Rightarrow> Some (p\<lparr>source := [], source_raised := Some e\<rparr>)
            | Blocked \<Rightarrow> None
            | Yielded f fnames sem \<Rightarrow>
                Some (p\<lparr>source := fnames, in_flight := in_flight p @ [f],
                        driver_state := (driver_state p)\<lparr>semaphore := sem\<rparr>\<rparr>)))"
| "step ext a Drain p =
     (if terminated p \<noteq> None then None
      else (case in_flight p of
              [] \<Rightarrow>
                (case source_raised p of
                   None \<Rightarrow> None
                 | Some e \<Rightarrow> Some (p\<lparr>terminated := Some e\<rparr>))
            | f # fs \<Rightarrow>
                (case encode (fix_text ext) (build_tokenizer ext) a f of
                   Inl e \<Rightarrow> Some (p\<lparr>terminated := Some e\<rparr>)
                 | Inr r \<Rightarrow>
                     (case consume (dataset ext) a (driver_state p) r of
                        (st, err) \<Rightarrow>
                          Some (p\<lparr>in_flight := fs, driver_state := st, terminated := err\<rparr>)))))"

text \<open>A schedule is the order in which the two threads act.\<close>

fun exec :: "'b externals \<Rightarrow> args \<Rightarrow> action list \<Rightarrow> 'b pipeline \<Rightarrow> 'b pipeline option" where
  "exec ext a [] p = Some p"
| "exec ext a (x # xs) p =
     (case step ext a x p of
        None \<Rightarrow> None
      | Some p' \<Rightarrow> exec ext a xs p')"

definition launch :: "input_file list \<Rightarrow> 'b driver \<Rightarrow> 'b pipeline" where
  "launch files st0 =
     \<lparr>source = files, source_raised = None, in_flight = [], driver_state = st0,
      terminated = None\<rparr>"

section \<open>Byte length\<close>

text \<open>
  The number of bytes of a document in UTF-8, the encoding that \<open>read\<close> opens the files
  with. The program does not compute it; it is what "byte length" in the specification
  denotes for a text.
\<close>

definition utf8_width :: "nat \<Rightarrow> nat" where
  "utf8_width c = (if c < 128 then 1 else if c < 2048 then 2 else if c < 65536 then 3 else 4)"

definition byte_length :: "pystr \<Rightarrow> nat" where
  "byte_length text = sum_list (map utf8_width text)"

section \<open>Collaborators for concrete runs\<close>

text \<open>
  Stand-ins for the external collaborators, used to run the model on concrete inputs: a
  tokenizer that gives every character the id one above its code point, with
  end-of-document id 0; a text repair that removes the control characters below U+0020;
  a decoder for files whose bytes are ASCII or the byte 0xFF, which can occur in no
  UTF-8 text and is dropped; a builder that records the calls it receives.
\<close>

definition char_tokenizer :: tokenizer where
  "char_tokenizer = \<lparr>tokenize = map Suc, eod = 0, vocab_size = 1114113\<rparr>"

definition drop_controls :: "pystr \<Rightarrow> pystr" where
  "drop_controls text = filter (\<lambda>c. 32 \<le> c) text"

definition ascii_ignore :: "byte list \<Rightarrow> pystr" where
  "ascii_ignore bs = map unat (filter (\<lambda>b. b < 128) bs)"

datatype call = AddItem "token list" | EndDocument | Finalize string

definition recorder :: "call list indexed_dataset" where
  "recorder =
     \<lparr>make_builder = (\<lambda>out_file impl vocab. Inr []),
      add_item = (\<lambda>b sentence. Inr (b @ [AddItem sentence])),
      end_document = (\<lambda>b. Inr (b @ [EndDocument])),
      finalize = (\<lambda>b index_file. Inr (b @ [Finalize index_file]))\<rparr>"

definition collaborators :: "call list externals" where
  "collaborators =
     \<lparr>fix_text = drop_controls, utf8_ignore = ascii_ignore,
      build_tokenizer = char_tokenizer, dataset = recorder\<rparr>"

definition run_args :: "string list \<Rightarrow> bool \<Rightarrow> bool \<Rightarrow> args" where
  "run_args keys eod_flag ftfy_flag =
     \<lparr>ftfy = ftfy_flag, json_keys = keys, append_eod = eod_flag,
      output_prefix = ''out'', dataset_impl = ''mmap'', workers = 1, log_interval = 100\<rparr>"

section \<open>Auxiliary facts\<close>

lemmas enc_defs = run_args_def char_tokenizer_def drop_controls_def encode_def encode_key_def
  append_to_last_def Let_def

lemmas src_defs = ascii_ignore_def yielder_def read_def sanitize_def replace_def
  NEWLINE_TOKEN_def TAB_TOKEN_def SPACE_TOKEN_def

lemmas main_defs = main_def main_init_def collaborators_def recorder_def enc_defs src_defs
  output_bin_file_def output_idx_file_def launch_def

subsection \<open>sanitize\<close>

lemma sanitize_map:
  "sanitize t = map (\<lambda>c. if c = 10 then NEWLINE_TOKEN else if c = 9 then TAB_TOKEN
                         else if c = 32 then SPACE_TOKEN else c) t"
  by (simp add: sanitize_def replace_def NEWLINE_TOKEN_def TAB_TOKEN_def SPACE_TOKEN_def)

lemma sanitize_free: "10 \<notin> set (sanitize t) \<and> 9 \<notin> set (sanitize t) \<and> 32 \<notin> set (sanitize t)"
  by (auto simp add: sanitize_map NEWLINE_TOKEN_def TAB_TOKEN_def SPACE_TOKEN_def)

lemma sanitize_Nil_iff: "sanitize t = [] \<longleftrightarrow> t = []"
  by (simp add: sanitize_map)

subsection \<open>Dictionaries\<close>

lemma map_of_dict_set: "map_of (dict_set k v d) = (map_of d)(k \<mapsto> v)"
  by (induction d) (auto simp add: fun_eq_iff)

lemma keys_dict_set: "fst ` set (dict_set k v d) = insert k (fst ` set d)"
  by (induction d) auto

lemma fold_dict_set_map_of:
  "k \<in> set keys \<Longrightarrow> map_of (fold (\<lambda>k. dict_set k v) keys ids) k = Some v"
proof (induction keys arbitrary: ids rule: rev_induct)
  case Nil then show ?case by simp
next
  case (snoc x xs)
  then show ?case by (cases "k = x") (auto simp add: map_of_dict_set)
qed

lemma fold_dict_set_keys:
  "fst ` set (fold (\<lambda>k. dict_set k v) keys ids) = fst ` set ids \<union> set keys"
  by (induction keys arbitrary: ids) (simp_all add: keys_dict_set)

subsection \<open>encode\<close>

lemma encode_key_cases:
  "encode_key tk a t =
     (if tokenize tk t = [] then (if append_eod a then Inl IndexError else Inr [])
      else Inr [if append_eod a then tokenize tk t @ [eod tk] else tokenize tk t])"
  by (simp add: encode_key_def append_to_last_def Let_def)

lemma encode_loop_Inr:
  "encode_key tk a t = Inr v \<Longrightarrow>
   encode_loop tk a t keys ids = Inr (fold (\<lambda>k. dict_set k v) keys ids)"
  by (induction keys arbitrary: ids) simp_all

lemma encode_loop_Inl:
  "encode_key tk a t = Inl e \<Longrightarrow> keys \<noteq> [] \<Longrightarrow> encode_loop tk a t keys ids = Inl e"
  by (cases keys) simp_all

lemma encode_result:
  "encode fx tk a t0 =
     (let t = (if ftfy a then fx t0 else t0) in
      if json_keys a = [] then Inr ([], length t)
      else case encode_key tk a t of Inl e \<Rightarrow> Inl e
        | Inr v \<Rightarrow> Inr (fold (\<lambda>k. dict_set k v) (json_keys a) [], length t))"
  by (cases "json_keys a = []")
     (auto simp add: encode_def Let_def encode_loop_Inr encode_loop_Inl split: sum.splits)

lemma encode_Inr_D:
  assumes "encode fx tk a t0 = Inr (ids, n)"
  shows "n = length (if ftfy a then fx t0 else t0)"
    and "json_keys a \<noteq> [] \<Longrightarrow>
           \<exists>v. encode_key tk a (if ftfy a then fx t0 else t0) = Inr v
             \<and> ids = fold (\<lambda>k. dict_set k v) (json_keys a) []"
  using assms by (auto simp add: encode_result Let_def split: if_splits sum.splits)

lemma encode_raises_IndexError:
  assumes "append_eod a" and "json_keys a \<noteq> []"
    and "tokenize tk (if ftfy a then fx t0 else t0) = []"
  shows "encode fx tk a t0 = Inl IndexError"
  using assms by (simp add: encode_result encode_key_cases Let_def)

subsection \<open>The generator\<close>

lemma yielder_Yields:
  "yielder dec fname sem = Yields f \<Longrightarrow>
     0 < sem \<and> f \<noteq> [] \<and> (\<exists>bs. fname = Content bs \<and> f = sanitize (dec bs))"
  by (auto simp add: yielder_def read_def split: input_file.splits if_splits)

lemma yield_from_files_Yielded:
  "yield_from_files dec fnames sem = Yielded f rest sem' \<Longrightarrow>
     sem = Suc sem' \<and> f \<noteq> [] \<and> (\<exists>bs. Content bs \<in> set fnames \<and> f = sanitize (dec bs))
     \<and> (\<exists>skipped. fnames = skipped @ rest)"
proof (induction fnames)
  case Nil then show ?case by simp
next
  case (Cons fname fnames)
  show ?case
  proof (cases "yielder dec fname sem")
    case Nothing
    with Cons.prems have "yield_from_files dec fnames sem = Yielded f rest sem'" by simp
    from Cons.IH[OF this] show ?thesis by (auto intro: exI[of _ "fname # _"])
  next
    case (Raises e) with Cons.prems show ?thesis by simp
  next
    case Waits with Cons.prems show ?thesis by simp
  next
    case (Yields g)
    with Cons.prems have "g = f" "rest = fnames" "sem' = sem - 1" by simp_all
    with yielder_Yields[OF Yields] show ?thesis by auto
  qed
qed

lemma yielder_empty:
  "read dec fname = Inr [] \<Longrightarrow> yielder dec fname sem = Nothing"
  by (simp add: yielder_def)




subsection \<open>The loop of main\<close>

lemma consume_semaphore:
  "consume api a st r = (st', err) \<Longrightarrow> semaphore st' = semaphore st + 1"
  by (cases r) (auto simp add: Let_def split: prod.splits option.splits if_splits)

lemma main_init_semaphore:
  "main_init ext a = Inr st0 \<Longrightarrow> int (semaphore st0) = 10000 + workers a"
  by (auto simp add: main_init_def split: if_splits sum.splits)



lemma step_permits:
  "step ext a x p = Some p' \<Longrightarrow>
     semaphore (driver_state p') + length (in_flight p') = semaphore (driver_state p) + length (in_flight p)"
proof (cases x)
  case Feed
  assume s: "step ext a x p = Some p'"
  show ?thesis
  proof (cases "yield_from_files (utf8_ignore ext) (source p) (semaphore (driver_state p))")
    case (Yielded f fnames sem)
    from yield_from_files_Yielded[OF Yielded] have "semaphore (driver_state p) = Suc sem" by simp
    with s Feed Yielded show ?thesis by (auto split: if_splits)
  qed (use s Feed in \<open>auto split: if_splits\<close>)
next
  case Drain
  assume s: "step ext a x p = Some p'"
  show ?thesis
  proof (cases "in_flight p")
    case Nil
    with s Drain show ?thesis by (auto split: if_splits option.splits)
  next
    case (Cons f fs)
    show ?thesis
    proof (cases "encode (fix_text ext) (build_tokenizer ext) a f")
      case (Inl e)
      with s Drain Cons show ?thesis by (auto split: if_splits)
    next
      case (Inr r)
      obtain st err where c: "consume (dataset ext) a (driver_state p) r = (st, err)"
        by (cases "consume (dataset ext) a (driver_state p) r")
      from consume_semaphore[OF c] have "semaphore st = semaphore (driver_state p) + 1" .
      with s Drain Cons Inr c show ?thesis by (auto split: if_splits)
    qed
  qed
qed

lemma exec_permits:
  "exec ext a xs p = Some p' \<Longrightarrow>
     semaphore (driver_state p') + length (in_flight p') = semaphore (driver_state p) + length (in_flight p)"
proof (induction xs arbitrary: p)
  case Nil then show ?case by simp
next
  case (Cons x xs)
  then obtain q where q: "step ext a x p = Some q" and r: "exec ext a xs q = Some p'"
    by (auto split: option.splits)
  from Cons.IH[OF r] step_permits[OF q] show ?case by simp
qed

section \<open>Properties of sanitize and encode\<close>

text \<open>
  C9: for every input string, \<open>sanitize\<close> replaces each newline by \<open>chr(2)\<close>, each tab by
  \<open>chr(1)\<close> and each space by U+2581 and leaves every other character unchanged; its
  output contains no newline, no tab and no space, and the three sentinels are distinct.
\<close>

theorem sanitize_replaces_whitespace:
  "sanitize doc =
     map (\<lambda>c. if c = 10 then NEWLINE_TOKEN else if c = 9 then TAB_TOKEN
              else if c = 32 then SPACE_TOKEN else c) doc
   \<and> 10 \<notin> set (sanitize doc) \<and> 9 \<notin> set (sanitize doc) \<and> 32 \<notin> set (sanitize doc)
   \<and> distinct [SPACE_TOKEN, TAB_TOKEN, NEWLINE_TOKEN]"
  using sanitize_map [of doc] sanitize_free [of doc]
  by (simp add: NEWLINE_TOKEN_def TAB_TOKEN_def SPACE_TOKEN_def)

text \<open>
  C10: whenever \<open>encode\<close> returns, every configured key is mapped to a list of at most
  one token sequence.
\<close>

theorem encode_at_most_one_sequence:
  assumes "encode fx tk a doc = Inr (ids, n)" and "key \<in> set (json_keys a)"
  shows "\<exists>seqs. map_of ids key = Some seqs \<and> length seqs \<le> 1"
proof -
  from assms(2) have ne: "json_keys a \<noteq> []" by auto
  from encode_Inr_D(2)[OF assms(1) ne] obtain v where
    v: "encode_key tk a (if ftfy a then fx doc else doc) = Inr v"
    and ids: "ids = fold (\<lambda>k. dict_set k v) (json_keys a) []" by blast
  from v have "length v \<le> 1"
    by (auto simp add: encode_key_cases split: if_splits)
  moreover from ids assms(2) have "map_of ids key = Some v"
    by (simp add: fold_dict_set_map_of)
  ultimately show ?thesis by blast
qed

theorem encode_at_most_one_sequence_witness:
  "encode drop_controls char_tokenizer (run_args [''text''] True False) [97]
     = Inr ([(''text'', [[98, 0]])], 1)
   \<and> ''text'' \<in> set (json_keys (run_args [''text''] True False))
   \<and> (\<exists>seqs. map_of [(''text'', [[98, 0 :: nat]])] ''text'' = Some seqs \<and> length seqs \<le> 1)"
proof -
  have h1: "encode drop_controls char_tokenizer (run_args [''text''] True False) [97]
     = Inr ([(''text'', [[98, 0]])], 1)"
    by (simp add: enc_defs)
  have h2: "''text'' \<in> set (json_keys (run_args [''text''] True False))"
    by (simp add: run_args_def)
  from encode_at_most_one_sequence [OF h1 h2] h1 h2 show ?thesis by blast
qed

text \<open>
  C7: when end-of-document marking is enabled and the tokenizer's output for the document
  (after the optional text repair) is not empty, \<open>encode\<close> returns, and for every
  configured key the one token sequence is the tokenizer's output followed by the
  end-of-document id.
\<close>

theorem encode_appends_eod:
  assumes "append_eod a" and "key \<in> set (json_keys a)"
    and "tokenize tk (if ftfy a then fx doc else doc) \<noteq> []"
  shows "\<exists>ids n. encode fx tk a doc = Inr (ids, n)
           \<and> map_of ids key = Some [tokenize tk (if ftfy a then fx doc else doc) @ [eod tk]]"
proof -
  let ?t = "if ftfy a then fx doc else doc"
  from assms(2) have ne: "json_keys a \<noteq> []" by auto
  from assms(1,3) have k: "encode_key tk a ?t = Inr [tokenize tk ?t @ [eod tk]]"
    by (simp add: encode_key_cases)
  with ne have "encode fx tk a doc
      = Inr (fold (\<lambda>k. dict_set k [tokenize tk ?t @ [eod tk]]) (json_keys a) [], length ?t)"
    by (simp add: encode_result Let_def)
  with assms(2) show ?thesis by (simp add: fold_dict_set_map_of)
qed

theorem encode_appends_eod_witness:
  "append_eod (run_args [''text''] True False)
   \<and> ''text'' \<in> set (json_keys (run_args [''text''] True False))
   \<and> tokenize char_tokenizer [104, 105] \<noteq> []
   \<and> (\<exists>ids n. encode drop_controls char_tokenizer (run_args [''text''] True False) [104, 105]
                 = Inr (ids, n)
         \<and> map_of ids ''text'' = Some [[105, 106, 0]])"
proof -
  let ?a = "run_args [''text''] True False"
  have h1: "append_eod ?a" by (simp add: run_args_def)
  have h2: "''text'' \<in> set (json_keys ?a)" by (simp add: run_args_def)
  have h3: "tokenize char_tokenizer (if ftfy ?a then drop_controls [104, 105] else [104, 105]) \<noteq> []"
    by (simp add: run_args_def char_tokenizer_def)
  from encode_appends_eod [of ?a "''text''" char_tokenizer drop_controls "[104, 105]", OF h1 h2 h3]
  have "\<exists>ids n. encode drop_controls char_tokenizer ?a [104, 105] = Inr (ids, n)
         \<and> map_of ids ''text'' = Some [[105, 106, 0]]"
    by (simp add: run_args_def char_tokenizer_def)
  with h1 h2 show ?thesis by (simp add: char_tokenizer_def)
qed

text \<open>
  C3: the second component of the pair that \<open>encode\<close> returns should be the byte
  length of the document as \<open>encode\<close> received it; \<open>main\<close> binds it as
  \<open>bytes_processed\<close>, sums it into \<open>total_bytes_processed\<close> and reports it in MB/s.
  The code returns \<open>len(text)\<close>, a count of characters, taken after \<open>text\<close> has been
  replaced by the repaired text. The document \<open>a\<close> U+2581 \<open>b\<close> (what \<open>sanitize\<close>
  makes of "a b") has 5 bytes and gives 3; with text repair enabled the document
  \<open>a\<close> \<open>chr(2)\<close> \<open>b\<close> has 3 bytes and 3 characters and gives 2, the length of the
  repaired text.
\<close>

theorem encode_length_not_bytes:
  "encode drop_controls char_tokenizer (run_args [''text''] False False) [97, 9601, 98]
     = Inr ([(''text'', [[98, 9602, 99]])], 3)
   \<and> byte_length [97, 9601, 98] = 5
   \<and> encode drop_controls char_tokenizer (run_args [''text''] False True) [97, 2, 98]
     = Inr ([(''text'', [[98, 99]])], 2)
   \<and> byte_length [97, 2, 98] = 3 \<and> length [97, 2, 98 :: nat] = 3"
  by (simp add: enc_defs byte_length_def utf8_width_def)

text \<open>
  C1: with end-of-document marking enabled, a document whose tokenization is empty makes
  \<open>encode\<close> raise \<open>IndexError\<close> at \<open>doc_ids[-1]\<close> instead of returning the key with an
  empty list: on the empty document, and with text repair on a document that the repair
  empties. With marking disabled the same document gives the empty list. A file holding
  one newline ends the whole run this way.
\<close>

theorem encode_raises_on_empty_tokens:
  "encode drop_controls char_tokenizer (run_args [''text''] True False) [] = Inl IndexError
   \<and> encode drop_controls char_tokenizer (run_args [''text''] True True) [2] = Inl IndexError
   \<and> encode drop_controls char_tokenizer (run_args [''text''] False False) []
       = Inr ([(''text'', [])], 0)
   \<and> main collaborators (run_args [''text''] True True) [Content [10]]
       = Inr (\<lparr>semaphore = 10000, builders = [(''text'', [])],
               total_bytes_processed = 0, docs_seen = 0\<rparr>, Failed IndexError)"
  by (simp add: main_defs)

section \<open>Properties of the document source\<close>

text \<open>
  C8: a file whose content is empty after normalization ends its \<open>yielder\<close> with no
  permit acquired and no document, and the generator goes on as if the file were not
  there; every document that the generator yields is non-empty, is the normalized
  content of one of the files, holds no newline, tab or space, and has cost one permit.
\<close>

theorem empty_documents_never_yielded:
  "(read dec fname = Inr [] \<longrightarrow>
      yielder dec fname sem = Nothing
      \<and> yield_from_files dec (fname # fnames) sem = yield_from_files dec fnames sem)
   \<and> (yield_from_files dec fnames sem = Yielded f rest sem' \<longrightarrow>
      f \<noteq> [] \<and> (\<exists>bs. Content bs \<in> set fnames \<and> f = sanitize (dec bs))
      \<and> 10 \<notin> set f \<and> 9 \<notin> set f \<and> 32 \<notin> set f \<and> sem = Suc sem')"
proof (intro conjI impI)
  assume "read dec fname = Inr []"
  then show "yielder dec fname sem = Nothing" by (rule yielder_empty)
  then show "yield_from_files dec (fname # fnames) sem = yield_from_files dec fnames sem"
    by simp
next
  assume y: "yield_from_files dec fnames sem = Yielded f rest sem'"
  from yield_from_files_Yielded [OF y] obtain bs where
    f: "f \<noteq> []" "Content bs \<in> set fnames" "f = sanitize (dec bs)" and s: "sem = Suc sem'"
    by blast
  from f show "f \<noteq> []" by simp
  from f show "\<exists>bs. Content bs \<in> set fnames \<and> f = sanitize (dec bs)" by blast
  from f sanitize_free [of "dec bs"] show "10 \<notin> set f" "9 \<notin> set f" "32 \<notin> set f" by simp_all
  from s show "sem = Suc sem'" .
qed

theorem empty_documents_never_yielded_witness:
  "read ascii_ignore (Content [255]) = Inr []
   \<and> yielder ascii_ignore (Content [255]) 3 = Nothing
   \<and> yield_from_files ascii_ignore [Content [255], Content [97, 32], Content [98]] 3
       = yield_from_files ascii_ignore [Content [97, 32], Content [98]] 3
   \<and> yield_from_files ascii_ignore [Content [97, 32], Content [98]] 3
       = Yielded [97, 9601] [Content [98]] 2
   \<and> [97, 9601] \<noteq> ([] :: nat list)
   \<and> (\<exists>bs. Content bs \<in> set [Content [97, 32], Content [98]]
          \<and> [97, 9601] = sanitize (ascii_ignore bs))
   \<and> 10 \<notin> set [97, 9601 :: nat] \<and> 9 \<notin> set [97, 9601 :: nat] \<and> 32 \<notin> set [97, 9601 :: nat]
   \<and> (3::nat) = Suc 2"
proof -
  have h1: "read ascii_ignore (Content [255]) = Inr []"
    by (simp add: src_defs)
  have h2: "yield_from_files ascii_ignore [Content [97, 32], Content [98]] 3
       = Yielded [97, 9601] [Content [98]] 2"
    by (simp add: src_defs)
  note t = empty_documents_never_yielded [where dec = ascii_ignore and fname = "Content [255]"
      and sem = 3 and fnames = "[Content [97, 32], Content [98]]"
      and f = "[97, 9601]" and rest = "[Content [98]]" and sem' = 2]
  from t h1 have c1: "yielder ascii_ignore (Content [255]) 3 = Nothing
     \<and> yield_from_files ascii_ignore [Content [255], Content [97, 32], Content [98]] 3
       = yield_from_files ascii_ignore [Content [97, 32], Content [98]] 3" by blast
  from t h2 have c2: "[97, 9601] \<noteq> ([] :: nat list)
   \<and> (\<exists>bs. Content bs \<in> set [Content [97, 32], Content [98]]
          \<and> [97, 9601] = sanitize (ascii_ignore bs))
   \<and> 10 \<notin> set [97, 9601 :: nat] \<and> 9 \<notin> set [97, 9601 :: nat] \<and> 32 \<notin> set [97, 9601 :: nat]
   \<and> (3::nat) = Suc 2" by blast
  from h1 h2 c1 c2 show ?thesis by blast
qed




section \<open>Properties of the driver\<close>

text \<open>
  C5: when the body of the loop of \<open>main\<close> ends with an exception for an encoded
  result, the state it leaves has the semaphore released once: \<open>semaphore.release()\<close>
  comes before every statement of the body that can raise.
\<close>

theorem consume_releases_before_failure:
  assumes "consume api a st r = (st', Some e)"
  shows "semaphore st' = semaphore st + 1"
  using consume_semaphore [OF assms] .

theorem consume_releases_before_failure_witness:
  "consume recorder (run_args [''text'', ''meta''] False False)
     \<lparr>semaphore = 10000, builders = [(''text'', [])], total_bytes_processed = 0, docs_seen = 0\<rparr>
     ([(''text'', [[98]]), (''meta'', [[98]])], 1)
   = (\<lparr>semaphore = 10001, builders = [(''text'', [AddItem [98], EndDocument])],
       total_bytes_processed = 1, docs_seen = 1\<rparr>, Some (KeyError ''meta''))
   \<and> semaphore \<lparr>semaphore = 10001, builders = [(''text'', [AddItem [98], EndDocument])],
       total_bytes_processed = 1, docs_seen = 1\<rparr> = 10000 + 1"
proof -
  have h: "consume recorder (run_args [''text'', ''meta''] False False)
     \<lparr>semaphore = 10000, builders = [(''text'', [])], total_bytes_processed = 0, docs_seen = 0\<rparr>
     ([(''text'', [[98]]), (''meta'', [[98]])], 1)
   = (\<lparr>semaphore = 10001, builders = [(''text'', [AddItem [98], EndDocument])],
       total_bytes_processed = 1, docs_seen = 1\<rparr>, Some (KeyError ''meta''))"
    by (simp add: recorder_def run_args_def Let_def)
  from consume_releases_before_failure [OF h] h show ?thesis by simp
qed

text \<open>
  C4: in every state that the generator and the loop of \<open>main\<close> reach, in any order of
  their actions and for any number of workers, the documents yielded whose permit has
  not been released number at most \<open>10000 + workers\<close>.
\<close>

theorem in_flight_bounded:
  assumes "main_init ext a = Inr st0" and "exec ext a schedule (launch files st0) = Some p"
  shows "int (length (in_flight p)) \<le> 10000 + workers a"
proof -
  from exec_permits[OF assms(2)]
  have "semaphore (driver_state p) + length (in_flight p) = semaphore st0"
    by (simp add: launch_def)
  with main_init_semaphore[OF assms(1)] show ?thesis by linarith
qed

theorem in_flight_bounded_witness:
  "main_init collaborators ((run_args [''text''] True False)\<lparr>workers := 2\<rparr>)
     = Inr \<lparr>semaphore = 10002, builders = [(''text'', [])], total_bytes_processed = 0,
            docs_seen = 0\<rparr>
   \<and> exec collaborators ((run_args [''text''] True False)\<lparr>workers := 2\<rparr>) [Feed, Feed, Drain]
        (launch [Content [104], Content [255], Content [97, 9, 98]]
           \<lparr>semaphore = 10002, builders = [(''text'', [])], total_bytes_processed = 0,
            docs_seen = 0\<rparr>)
     = Some \<lparr>source = [], source_raised = None, in_flight = [[97, 1, 98]],
             driver_state = \<lparr>semaphore = 10001,
               builders = [(''text'', [AddItem [105, 0], EndDocument])],
               total_bytes_processed = 1, docs_seen = 1\<rparr>,
             terminated = None\<rparr>
   \<and> int (length [[97, 1, 98 :: nat]]) \<le> 10000 + 2"
proof -
  let ?a = "(run_args [''text''] True False)\<lparr>workers := 2\<rparr>"
  let ?st = "\<lparr>semaphore = 10002, builders = [(''text'', [] :: call list)],
              total_bytes_processed = 0, docs_seen = 0\<rparr>"
  let ?p = "\<lparr>source = [], source_raised = None, in_flight = [[97, 1, 98]],
             driver_state = \<lparr>semaphore = 10001,
               builders = [(''text'', [AddItem [105, 0], EndDocument])],
               total_bytes_processed = 1, docs_seen = 1\<rparr>,
             terminated = None\<rparr>"
  have h1: "main_init collaborators ?a = Inr ?st"
    by (simp add: main_defs)
  have h2: "exec collaborators ?a [Feed, Feed, Drain]
        (launch [Content [104], Content [255], Content [97, 9, 98]] ?st) = Some ?p"
    by (simp add: main_defs launch_def)
  from in_flight_bounded [OF h1 h2] have "int (length [[97, 1, 98 :: nat]]) \<le> 10000 + 2"
    by (simp add: run_args_def)
  with h1 h2 show ?thesis by blast
qed

text \<open>
  C2: the builders are made by \<open>for key in ("text",)\<close>, not for the keys of
  \<open>args.json_keys\<close>. With the keys \<open>text\<close> and \<open>meta\<close> there is one builder, for
  \<open>text\<close>; the first document's sequences for \<open>meta\<close> meet \<open>KeyError\<close> at
  \<open>builders[key]\<close>, and no builder is finalized; with no document at all the loop over
  \<open>args.json_keys\<close> finalizes \<open>text\<close> and raises \<open>KeyError\<close> for \<open>meta\<close>.
\<close>

theorem builder_only_for_text:
  "main_init collaborators (run_args [''text'', ''meta''] False False)
     = Inr \<lparr>semaphore = 10001, builders = [(''text'', [])], total_bytes_processed = 0,
            docs_seen = 0\<rparr>
   \<and> main collaborators (run_args [''text'', ''meta''] False False) [Content [97]]
     = Inr (\<lparr>semaphore = 10001, builders = [(''text'', [AddItem [98], EndDocument])],
             total_bytes_processed = 1, docs_seen = 1\<rparr>, Failed (KeyError ''meta''))
   \<and> main collaborators (run_args [''text'', ''meta''] False False) []
     = Inr (\<lparr>semaphore = 10001,
             builders = [(''text'', [Finalize ''out_text_document.idx''])],
             total_bytes_processed = 0, docs_seen = 0\<rparr>, Failed (KeyError ''meta''))"
  by (simp add: main_defs)

end
